theory Spec2Isabelle
  imports Main
begin

section \<open>Go values: errors, panics, results\<close>

text \<open>
  A Go \<^verbatim>\<open>error\<close> is a value; \<^verbatim>\<open>nil\<close> is \<open>None\<close>. \<open>Errorf\<close> is an error made by
  \<^verbatim>\<open>errors.Errorf\<close> or \<^verbatim>\<open>errors.New\<close>, \<open>Wrapped m e\<close> is \<open>e\<close> annotated with \<open>m\<close> by
  \<^verbatim>\<open>errors.Wrap\<close>/\<^verbatim>\<open>errors.Wrapf\<close>, and \<open>External\<close> is an error handed back by the
  operating system or a library (\<^verbatim>\<open>os\<close>, \<^verbatim>\<open>os/exec\<close>, \<^verbatim>\<open>encoding/json\<close>, the IPC layer).
\<close>

datatype error = Errorf string | Wrapped string error | External string

text \<open>
  \<^verbatim>\<open>github.com/pkg/errors\<close>: \<^verbatim>\<open>Wrap\<close> and \<^verbatim>\<open>Wrapf\<close> annotate a non-nil error, and return
  \<^verbatim>\<open>nil\<close> when the error they are given is \<^verbatim>\<open>nil\<close>.
\<close>

fun errors_Wrap :: "error option \<Rightarrow> string \<Rightarrow> error option" where
  "errors_Wrap None m = None"
| "errors_Wrap (Some e) m = Some (Wrapped m e)"

text \<open>A call either returns or panics; a panic carries the runtime's message.\<close>

datatype 'a go = Panics string | Returns 'a

section \<open>Executables and the dependency resolver\<close>

text \<open>
  \<^verbatim>\<open>script.Executable\<close> is an interface; \<^verbatim>\<open>script.Expression\<close> and \<^verbatim>\<open>script.Package\<close> are
  string types implementing it. \<open>OtherExecutable t\<close> is a value of any other dynamic
  type, \<open>t\<close> being what \<^verbatim>\<open>%T\<close> prints for it.
\<close>

datatype Executable = Expression string | Package string | OtherExecutable string

fun getDependencies :: "Executable \<Rightarrow> string list \<times> error option" where
  "getDependencies (Expression e) = ([], None)"
| "getDependencies (Package e) = ([e], None)"
| "getDependencies (OtherExecutable t) =
     ([], Some (Errorf (''unrecognized script executable '' @ t)))"

section \<open>JSON escaping of template values\<close>

text \<open>
  \<^verbatim>\<open>escapeJSON\<close> calls \<^verbatim>\<open>json.Marshal\<close> and \<^verbatim>\<open>strings.Trim\<close>. Go strings are byte
  sequences, a \<open>char\<close> is a byte. The string encoder of \<^verbatim>\<open>encoding/json\<close> (with HTML
  escaping, which \<^verbatim>\<open>Marshal\<close> switches on) walks the bytes: an ASCII byte of the
  HTML-safe set is copied, any other ASCII byte is escaped, an invalid UTF-8 byte becomes
  the escape of U+FFFD, U+2028 and U+2029 are escaped and every other multi-byte rune is
  copied. \<open>utf8_DecodeRuneInString\<close> gives the rune at the head of a string and its
  width in bytes, as \<^verbatim>\<open>utf8.DecodeRuneInString\<close> does.
\<close>

definition RuneError :: nat where
  "RuneError = 0xFFFD"

definition utf8_DecodeRuneInString :: "string \<Rightarrow> nat \<times> nat" where
  "utf8_DecodeRuneInString s =
     (case s of
        [] \<Rightarrow> (RuneError, 0)
      | c0 # rest \<Rightarrow>
          let s0 = (of_char c0 :: nat) in
          if s0 < 0x80 then (s0, 1)
          else if s0 < 0xC2 \<or> 0xF5 \<le> s0 then (RuneError, 1)
          else
            let sz = (if s0 < 0xE0 then 2 else if s0 < 0xF0 then 3 else 4 :: nat);
                lo = (if s0 = 0xE0 then 0xA0 else if s0 = 0xF0 then 0x90 else 0x80 :: nat);
                hi = (if s0 = 0xED then 0x9F else if s0 = 0xF4 then 0x8F else 0xBF :: nat)
            in
            if length s < sz then (RuneError, 1)
            else
              let s1 = (of_char (s ! 1) :: nat) in
              if s1 < lo \<or> hi < s1 then (RuneError, 1)
              else if sz \<le> 2 then ((s0 mod 32) * 64 + s1 mod 64, 2)
              else
                let s2 = (of_char (s ! 2) :: nat) in
                if s2 < 0x80 \<or> 0xBF < s2 then (RuneError, 1)
                else if sz \<le> 3 then ((s0 mod 16) * 4096 + (s1 mod 64) * 64 + s2 mod 64, 3)
                else
                  let s3 = (of_char (s ! 3) :: nat) in
                  if s3 < 0x80 \<or> 0xBF < s3 then (RuneError, 1)
                  else ((s0 mod 8) * 262144 + (s1 mod 64) * 4096 + (s2 mod 64) * 64
                          + s3 mod 64, 4))"

lemma DecodeRune_size: "s \<noteq> [] \<Longrightarrow> 1 \<le> snd (utf8_DecodeRuneInString s)"
  by (cases s) (auto simp: utf8_DecodeRuneInString_def Let_def)

definition htmlSafeSet :: "char \<Rightarrow> bool" where
  "htmlSafeSet b \<longleftrightarrow>
     0x20 \<le> (of_char b :: nat) \<and> (of_char b :: nat) < 0x80 \<and>
     b \<noteq> CHR 0x22 \<and> b \<noteq> CHR ''&'' \<and> b \<noteq> CHR ''<'' \<and> b \<noteq> CHR ''>'' \<and> b \<noteq> CHR 0x5C"

definition hex :: "nat \<Rightarrow> char" where
  "hex n = ''0123456789abcdef'' ! n"

definition escape_byte :: "char \<Rightarrow> string" where
  "escape_byte b =
     CHR 0x5C #
     (if b = CHR 0x5C \<or> b = CHR 0x22 then [b]
      else if b = CHR ''\<newline>'' then ''n''
      else if b = CHR 0x0D then ''r''
      else if b = CHR 0x09 then ''t''
      else ''u00'' @ [hex (of_char b div 16), hex (of_char b mod 16)])"

lemma DecodeRune_drop:
  "(c, y) = utf8_DecodeRuneInString (b # s) \<Longrightarrow> Suc (length s) - y < Suc (length s)"
  using DecodeRune_size [of "b # s"] by (cases "utf8_DecodeRuneInString (b # s)") auto

function encode_string :: "string \<Rightarrow> string" where
  "encode_string [] = []"
| "encode_string (b # s) =
     (if (of_char b :: nat) < 0x80 then
        (if htmlSafeSet b then [b] else escape_byte b) @ encode_string s
      else
        let (c, size) = utf8_DecodeRuneInString (b # s) in
        if c = RuneError \<and> size = 1 then CHR 0x5C # ''ufffd'' @ encode_string s
        else if c = 0x2028 \<or> c = 0x2029 then
          CHR 0x5C # ''u202'' @ [hex (c mod 16)] @ encode_string (drop size (b # s))
        else take size (b # s) @ encode_string (drop size (b # s)))"
  by pat_completeness auto
termination
  by (relation "measure length") (auto dest: DecodeRune_drop)

text \<open>
  \<^verbatim>\<open>json.Marshal\<close> of a string never fails. \<^verbatim>\<open>escapeJSON\<close> is also given the variable
  bag; how \<^verbatim>\<open>json.Marshal\<close> renders that value is the parameter \<open>marshalOther\<close>. On an
  error \<^verbatim>\<open>Marshal\<close> returns no data, and \<^verbatim>\<open>escapeJSON\<close> drops the error.
  \<^verbatim>\<open>strings.Trim s cutset\<close> removes every leading and every trailing byte of \<open>s\<close>
  that is in \<open>cutset\<close> (an ASCII cutset).
\<close>

definition json_Marshal_string :: "string \<Rightarrow> string" where
  "json_Marshal_string s = CHR 0x22 # encode_string s @ [CHR 0x22]"

definition strings_Trim :: "string \<Rightarrow> string \<Rightarrow> string" where
  "strings_Trim s cutset =
     rev (dropWhile (\<lambda>c. c \<in> set cutset) (rev (dropWhile (\<lambda>c. c \<in> set cutset) s)))"

definition json_Marshal :: "('m \<Rightarrow> error + string) \<Rightarrow> string + 'm \<Rightarrow> string \<times> error option" where
  "json_Marshal marshalOther value =
     (case value of
        Inl s \<Rightarrow> (json_Marshal_string s, None)
      | Inr m \<Rightarrow> (case marshalOther m of Inl e \<Rightarrow> ([], Some e) | Inr data \<Rightarrow> (data, None)))"

definition escapeJSON :: "('m \<Rightarrow> error + string) \<Rightarrow> string + 'm \<Rightarrow> string" where
  "escapeJSON marshalOther value =
     (let (data, _) = json_Marshal marshalOther value in strings_Trim data [CHR 0x22])"

subsection \<open>Reading a JSON string literal back\<close>

text \<open>
  What the escaped text must decode to is stated against a reader of JSON string
  literals (RFC 8259): the literal is enclosed in double quotes, a backslash starts an
  escape, an unescaped double quote or control character inside is refused. A
  \<^verbatim>\<open>\uXXXX\<close> escape yields the UTF-8 bytes of that code point.
  \<open>embedded_literal s\<close> is the escaped text of \<open>s\<close> put back between double quotes.
\<close>

definition hexval :: "char \<Rightarrow> nat option" where
  "hexval c =
     (let n = (of_char c :: nat) in
      if 0x30 \<le> n \<and> n \<le> 0x39 then Some (n - 0x30)
      else if 0x61 \<le> n \<and> n \<le> 0x66 then Some (n - 0x61 + 10)
      else if 0x41 \<le> n \<and> n \<le> 0x46 then Some (n - 0x41 + 10)
      else None)"

definition utf8_encode :: "nat \<Rightarrow> string" where
  "utf8_encode r =
     (if r < 0x80 then [char_of r]
      else if r < 0x800 then [char_of (0xC0 + r div 64), char_of (0x80 + r mod 64)]
      else [char_of (0xE0 + r div 4096), char_of (0x80 + (r div 64) mod 64),
            char_of (0x80 + r mod 64)])"

definition unescape_char :: "char \<Rightarrow> char option" where
  "unescape_char e =
     (if e = CHR 0x22 \<or> e = CHR 0x5C \<or> e = CHR ''/'' then Some e
      else if e = CHR ''b'' then Some (CHR 0x08)
      else if e = CHR ''f'' then Some (CHR 0x0C)
      else if e = CHR ''n'' then Some (CHR ''\<newline>'')
      else if e = CHR ''r'' then Some (CHR 0x0D)
      else if e = CHR ''t'' then Some (CHR 0x09)
      else None)"

fun json_unescape :: "string \<Rightarrow> string option" where
  "json_unescape [] = Some []"
| "json_unescape (c # cs) =
     (if c = CHR 0x22 then None
      else if c = CHR 0x5C then
        (case cs of
           [] \<Rightarrow> None
         | e # r \<Rightarrow>
             if e = CHR ''u'' then
               (case r of
                  h1 # h2 # h3 # h4 # r' \<Rightarrow>
                    (case (hexval h1, hexval h2, hexval h3, hexval h4) of
                       (Some a, Some b, Some c, Some d) \<Rightarrow>
                         map_option ((@) (utf8_encode (((a * 16 + b) * 16 + c) * 16 + d)))
                           (json_unescape r')
                     | _ \<Rightarrow> None)
                | _ \<Rightarrow> None)
             else
               (case unescape_char e of
                  None \<Rightarrow> None
                | Some x \<Rightarrow> map_option ((#) x) (json_unescape r)))
      else if (of_char c :: nat) < 0x20 then None
      else map_option ((#) c) (json_unescape cs))"

definition json_decode_string :: "string \<Rightarrow> string option" where
  "json_decode_string lit =
     (case lit of
        [] \<Rightarrow> None
      | q # rest \<Rightarrow>
          if q = CHR 0x22 \<and> rest \<noteq> [] \<and> last rest = CHR 0x22
          then json_unescape (butlast rest) else None)"

definition embedded_literal :: "string \<Rightarrow> string" where
  "embedded_literal s = CHR 0x22 # escapeJSON (\<lambda>_::unit. Inr []) (Inl s) @ [CHR 0x22]"

definition ascii :: "string \<Rightarrow> bool" where
  "ascii s \<longleftrightarrow> list_all (\<lambda>c. (of_char c :: nat) < 0x80) s"

section \<open>The variable bag\<close>

text \<open>
  A value of type \<^verbatim>\<open>interface{}\<close> is either the nil interface or a dynamic value, of
  which the model keeps the \<^verbatim>\<open>reflect.Kind\<close> of its type and the value itself.
  \<^verbatim>\<open>reflect.TypeOf\<close> returns the nil \<^verbatim>\<open>Type\<close> for the nil interface, and calling \<^verbatim>\<open>Kind\<close>
  on that is a nil dereference. A \<^verbatim>\<open>Type\<close> is represented by its kind.
\<close>

datatype kind =
  Kind_Bool | Kind_Int | Kind_Float64 | Kind_String | Kind_Slice | Kind_Map | Kind_Struct
  | Kind_Ptr | Kind_Func

datatype 'v iface = NilValue | Dyn kind 'v

fun reflect_TypeOf :: "'v iface \<Rightarrow> kind option" where
  "reflect_TypeOf NilValue = None"
| "reflect_TypeOf (Dyn k v) = Some k"

text \<open>
  A Go map that is ranged over is given as the list of its entries in the order the
  \<^verbatim>\<open>range\<close> statement visits them (the keys are distinct; Go fixes no order, so a
  property of the code holds for every order). The loop of \<^verbatim>\<open>sanitizeVariables\<close> carries
  the map \<^verbatim>\<open>variables\<close> it fills; \<^verbatim>\<open>vars\<close> is only read.
\<close>

fun sanitize_range ::
  "(string \<times> 'v iface) list \<Rightarrow> (string \<rightharpoonup> 'v iface) \<Rightarrow> (string \<rightharpoonup> 'v iface) go" where
  "sanitize_range [] variables = Returns variables"
| "sanitize_range ((key, value) # rest) variables =
     (case reflect_TypeOf value of
        None \<Rightarrow> Panics ''invalid memory address or nil pointer dereference''
      | Some t \<Rightarrow>
          if t \<noteq> Kind_Func then sanitize_range rest (variables(key \<mapsto> value))
          else sanitize_range rest variables)"

definition sanitizeVariables ::
  "(string \<times> 'v iface) list \<Rightarrow> (string \<rightharpoonup> 'v iface) go" where
  "sanitizeVariables vars = sanitize_range vars Map.empty"

text \<open>\<open>is_func\<close>: the value has runtime kind function.\<close>

definition is_func :: "'v iface \<Rightarrow> bool" where
  "is_func value \<longleftrightarrow> reflect_TypeOf value = Some Kind_Func"


section \<open>The world outside: files, commands, collaborators\<close>

type_synonym path = string

datatype entry = Directory | RegularFile string

type_synonym filesystem = "path \<Rightarrow> entry option"

text \<open>
  An external command as \<^verbatim>\<open>exec.CommandContext\<close> builds it: the program, its arguments,
  its working directory and the timeout of its context, in nanoseconds as a
  \<^verbatim>\<open>time.Duration\<close> counts.
\<close>

record command =
  cmd_path :: string
  cmd_args :: "string list"
  cmd_dir :: path
  cmd_timeout :: nat

text \<open>The state: the files on disk and the commands run so far, oldest first.\<close>

record world =
  files :: filesystem
  execs :: "command list"

record packageJSON =
  Main :: string
  Dependencies :: "(string \<times> string) list"

record scriptTemplateValues =
  Executable :: string
  Variables :: string
  Includes :: string

text \<open>\<^verbatim>\<open>ipc.StdIO\<close>, the process handed to \<^verbatim>\<open>ipc.Govern\<close>, and the \<^verbatim>\<open>Script\<close> returned.\<close>

record StdIO =
  Dir :: path
  Path :: string
  Args :: "string list"

record 'g Script =
  script_governor :: 'g
  script_dir :: path

text \<open>
  What the code cannot decide itself is a parameter: whether a program is on the search
  path, the temporary directory, the UUID drawn, whether the operating system refuses
  an operation, what running a command returns and does to the files, how JSON text
  decodes into a manifest, what executing the embedded template \<^verbatim>\<open>script.js\<close> writes and
  returns, how the variable bag marshals, and what \<^verbatim>\<open>ipc.Govern\<close> returns.
\<close>

record ('v, 'g) env =
  LookPath :: "string \<Rightarrow> error option"
  TempDir :: path
  NewV4 :: string
  RemoveAll_fails :: "path \<Rightarrow> error option"
  MkdirAll_fails :: "path \<Rightarrow> error option"
  Create_fails :: "path \<Rightarrow> error option"
  Write_fails :: "path \<Rightarrow> error option"
  Run :: "command \<Rightarrow> filesystem \<Rightarrow> error option \<times> filesystem"
  Decode :: "string \<Rightarrow> error + packageJSON"
  Execute :: "scriptTemplateValues \<Rightarrow> string \<times> error option"
  Marshal_variables :: "(string \<rightharpoonup> 'v iface) \<Rightarrow> error + string"
  Govern :: "StdIO \<Rightarrow> error + 'g"

subsection \<open>Paths\<close>

text \<open>
  \<^verbatim>\<open>filepath.Join\<close> (Unix) drops empty elements, joins the rest with a slash and cleans
  the result; the join of no elements is the empty string. \<^verbatim>\<open>filepath.Clean\<close> removes
  empty and \<^verbatim>\<open>.\<close> elements, resolves an inner \<^verbatim>\<open>..\<close> against the element before it,
  drops \<^verbatim>\<open>..\<close> at the root, and returns \<^verbatim>\<open>.\<close> for an empty result.
\<close>

fun split_slash :: "string \<Rightarrow> string list" where
  "split_slash [] = [[]]"
| "split_slash (c # cs) =
     (if c = CHR ''/'' then [] # split_slash cs
      else (case split_slash cs of [] \<Rightarrow> [[c]] | x # xs \<Rightarrow> (c # x) # xs))"

fun strings_Join :: "string list \<Rightarrow> string \<Rightarrow> string" where
  "strings_Join [] sep = []"
| "strings_Join [x] sep = x"
| "strings_Join (x # y # ys) sep = x @ sep @ strings_Join (y # ys) sep"

definition clean_element :: "bool \<Rightarrow> string list \<Rightarrow> string \<Rightarrow> string list" where
  "clean_element rooted stack c =
     (if c = [] \<or> c = ''.'' then stack
      else if c = ''..'' then
        (case stack of
           [] \<Rightarrow> if rooted then [] else [''..'']
         | t # below \<Rightarrow> if t = ''..'' then ''..'' # stack else below)
      else c # stack)"

definition filepath_Clean :: "path \<Rightarrow> path" where
  "filepath_Clean p =
     (let rooted = (p \<noteq> [] \<and> hd p = CHR ''/'');
          stack = foldl (clean_element rooted) [] (split_slash p);
          out = (if rooted then ''/'' else []) @ strings_Join (rev stack) ''/''
      in if out = [] then ''.'' else out)"

definition filepath_Join :: "string list \<Rightarrow> path" where
  "filepath_Join elems =
     (let parts = filter (\<lambda>e. e \<noteq> []) elems
      in if parts = [] then [] else filepath_Clean (strings_Join parts ''/''))"

definition under :: "path \<Rightarrow> path \<Rightarrow> bool" where
  "under d p \<longleftrightarrow> p = d \<or> take (Suc (length d)) p = d @ ''/''"

subsection \<open>Operating-system calls\<close>

text \<open>
  \<^verbatim>\<open>os.RemoveAll\<close> removes the path and everything below it, \<^verbatim>\<open>os.MkdirAll\<close> makes the
  directory (a regular file in its place is an error), \<^verbatim>\<open>os.Create\<close> makes or truncates
  a regular file (a directory in its place is an error), and a write to the file just
  created leaves the written bytes as its contents. \<^verbatim>\<open>os.Open\<close> fails on a path that
  does not exist; reading an opened directory fails.
\<close>

definition os_RemoveAll :: "('v, 'g) env \<Rightarrow> filesystem \<Rightarrow> path \<Rightarrow> filesystem \<times> error option" where
  "os_RemoveAll env fs p =
     (case RemoveAll_fails env p of
        Some err \<Rightarrow> (fs, Some err)
      | None \<Rightarrow> ((\<lambda>q. if under p q then None else fs q), None))"

definition os_MkdirAll :: "('v, 'g) env \<Rightarrow> filesystem \<Rightarrow> path \<Rightarrow> filesystem \<times> error option" where
  "os_MkdirAll env fs p =
     (case MkdirAll_fails env p of
        Some err \<Rightarrow> (fs, Some err)
      | None \<Rightarrow>
          (case fs p of
             Some (RegularFile _) \<Rightarrow> (fs, Some (External ''mkdir: not a directory''))
           | _ \<Rightarrow> (fs(p \<mapsto> Directory), None)))"

definition os_Create :: "('v, 'g) env \<Rightarrow> filesystem \<Rightarrow> path \<Rightarrow> filesystem \<times> error option" where
  "os_Create env fs p =
     (case Create_fails env p of
        Some err \<Rightarrow> (fs, Some err)
      | None \<Rightarrow>
          (case fs p of
             Some Directory \<Rightarrow> (fs, Some (External ''open: is a directory''))
           | _ \<Rightarrow> (fs(p \<mapsto> RegularFile []), None)))"

definition file_Write :: "('v, 'g) env \<Rightarrow> filesystem \<Rightarrow> path \<Rightarrow> string \<Rightarrow> filesystem \<times> error option" where
  "file_Write env fs p data =
     (case Write_fails env p of
        Some err \<Rightarrow> (fs, Some err)
      | None \<Rightarrow> (fs(p \<mapsto> RegularFile data), None))"

definition os_Open :: "filesystem \<Rightarrow> path \<Rightarrow> error + entry" where
  "os_Open fs p =
     (case fs p of
        None \<Rightarrow> Inl (External ''open: no such file or directory'')
      | Some file \<Rightarrow> Inr file)"

definition ioutil_ReadAll :: "entry \<Rightarrow> error + string" where
  "ioutil_ReadAll file =
     (case file of
        Directory \<Rightarrow> Inl (External ''read: is a directory'')
      | RegularFile data \<Rightarrow> Inr data)"

section \<open>The script factory\<close>

definition executableScriptName :: string where
  "executableScriptName = ''main.cjs''"

definition node :: string where
  "node = ''node''"

definition npm :: string where
  "npm = ''npm''"

text \<open>
  The factory holds the harness-support packages, a map from name to version (given in
  the order a \<^verbatim>\<open>range\<close> visits it).
\<close>

record factory =
  packages :: "(string \<times> string) list"

definition Factory :: factory where
  "Factory = \<lparr>packages = [(''node-fetch'', ''2''), (''vm2'', ''3'')]\<rparr>"

definition time_Minute :: nat where
  "time_Minute = 60 * 1000000000"

subsection \<open>Installing the dependencies\<close>

fun range_packages :: "(string \<times> string) list \<Rightarrow> string list \<Rightarrow> string list" where
  "range_packages [] args = args"
| "range_packages ((name, version) # rest) args =
     (if version \<noteq> [] then range_packages rest (args @ [name @ ''@'' @ version])
      else range_packages rest (args @ [name]))"

definition installNodeModules ::
  "factory \<Rightarrow> ('v, 'g) env \<Rightarrow> path \<Rightarrow> string list \<Rightarrow> world \<Rightarrow> world \<times> error option" where
  "installNodeModules f env dir modules w =
     (let args = range_packages (packages f) [''install''];
          args = args @ modules;
          cmd = \<lparr>cmd_path = npm, cmd_args = args, cmd_dir = dir,
                 cmd_timeout = 2 * time_Minute\<rparr>;
          (err, fs) = Run env cmd (files w)
      in (w\<lparr>files := fs, execs := execs w @ [cmd]\<rparr>, err))"

subsection \<open>Package manifests\<close>

definition packageJSONPath :: "path \<Rightarrow> path" where
  "packageJSONPath dir = filepath_Join [dir, ''package.json'']"

definition readPackageJSON ::
  "('v, 'g) env \<Rightarrow> filesystem \<Rightarrow> path \<Rightarrow> packageJSON option \<times> error option" where
  "readPackageJSON env fs dir =
     (case os_Open fs (packageJSONPath dir) of
        Inl err \<Rightarrow> (None, errors_Wrap (Some err) ''open package.json'')
      | Inr file \<Rightarrow>
          (case (case ioutil_ReadAll file of Inl err \<Rightarrow> Inl err | Inr text \<Rightarrow> Decode env text) of
             Inl err \<Rightarrow> (None, errors_Wrap (Some err) ''decode package.json'')
           | Inr data \<Rightarrow> (Some data, None)))"

definition createPackageJSON ::
  "('v, 'g) env \<Rightarrow> filesystem \<Rightarrow> path \<Rightarrow> filesystem \<times> error option" where
  "createPackageJSON env fs dir =
     (case os_Create env fs (packageJSONPath dir) of
        (fs1, Some err) \<Rightarrow>
          (fs1, errors_Wrap (Some err) (''create package.json in '' @ [CHR 0x27] @ dir @ [CHR 0x27]))
      | (fs1, None) \<Rightarrow>
          (case file_Write env fs1 (packageJSONPath dir) ''{}'' of
             (fs2, Some err) \<Rightarrow>
               (fs2, errors_Wrap (Some err)
                       (''write to package.json in '' @ [CHR 0x27] @ dir @ [CHR 0x27]))
           | (fs2, None) \<Rightarrow> (fs2, None)))"

subsection \<open>The harness user code\<close>

text \<open>\<^verbatim>\<open>%v\<close> of a string slice: the elements between brackets, separated by spaces.\<close>

definition fmt_strings :: "string list \<Rightarrow> string" where
  "fmt_strings xs = ''['' @ strings_Join xs '' '' @ '']''"

definition expression_prefix :: string where
  "expression_prefix =
     ''\<newline>module.exports = async (event) => {\<newline>  let $ = event\<newline>  let _ = event\<newline>// expression start //\<newline>''"

definition expression_suffix :: string where
  "expression_suffix = ''\<newline>// expression end //\<newline>}''"

definition getExpression ::
  "factory \<Rightarrow> ('v, 'g) env \<Rightarrow> filesystem \<Rightarrow> path \<Rightarrow> Executable \<Rightarrow> (string \<times> error option) go" where
  "getExpression f env fs dir executable =
     (case executable of
        Expression e \<Rightarrow> Returns (expression_prefix @ e @ expression_suffix, None)
      | Package e \<Rightarrow>
          let (packageJSON, err) = readPackageJSON env fs dir in
          if err \<noteq> None then Returns ([], errors_Wrap err ''read runtime package.json'')
          else
            (case packageJSON of
               None \<Rightarrow> Panics ''invalid memory address or nil pointer dereference''
             | Some manifest \<Rightarrow>
                 let dependencies =
                       filter (\<lambda>dependency. map_of (packages f) dependency = None)
                         (map fst (Dependencies manifest))
                 in
                 if length dependencies > 1 then
                   Returns ([], errors_Wrap err
                     (''multiple external dependencies found: '' @ fmt_strings dependencies))
                 else
                   (case dependencies of
                      [] \<Rightarrow> Panics ''index out of range [0] with length 0''
                    | packageName # _ \<Rightarrow>
                        let packageDir = filepath_Join [dir, ''node_modules'', packageName];
                            (packageJSON, err) = readPackageJSON env fs packageDir
                        in
                        if err \<noteq> None then
                          Returns ([], errors_Wrap err ''read package.json main field'')
                        else
                          (case packageJSON of
                             None \<Rightarrow> Panics ''invalid memory address or nil pointer dereference''
                           | Some manifest \<Rightarrow>
                               if Main manifest = [] then
                                 Returns ([], Some (Errorf
                                   (''package.json main for '' @ packageName @ '' is empty'')))
                               else
                                 (case os_Open fs (filepath_Join [packageDir, Main manifest]) of
                                    Inl err \<Rightarrow>
                                      Returns ([], errors_Wrap (Some err) ''open main file'')
                                  | Inr main \<Rightarrow>
                                      (case ioutil_ReadAll main of
                                         Inl err \<Rightarrow>
                                           Returns ([], errors_Wrap (Some err) ''read main file'')
                                       | Inr data \<Rightarrow> Returns (data, None))))))
      | OtherExecutable t \<Rightarrow>
          Returns ([], Some (Errorf (''unrecognized executable '' @ t))))"

subsection \<open>Creating a script\<close>

definition not_in_PATH :: string where
  "not_in_PATH =
     '' is not in $PATH. Please make sure that node and npm is installed and available in $PATH.''"

definition quoted :: "string \<Rightarrow> string" where
  "quoted s = [CHR 0x27] @ s @ [CHR 0x27]"

text \<open>
  \<open>CreateScript\<close> threads the world through its steps and returns it with the script
  (if any) and the error (if any). Each early \<^verbatim>\<open>return nil, err\<close> of the source is a
  branch; a panic of \<^verbatim>\<open>getExpression\<close> or \<^verbatim>\<open>sanitizeVariables\<close> unwinds through it.
  The template writes into the script file as it executes, so what it wrote is on disk
  whether or not it returned an error.
\<close>

definition CreateScript ::
  "factory \<Rightarrow> ('v, 'g) env \<Rightarrow> world \<Rightarrow> Executable \<Rightarrow> (string \<times> 'v iface) list \<Rightarrow> string list
     \<Rightarrow> (world \<times> 'g Script option \<times> error option) go" where
  "CreateScript f env w executable variables includes =
     (case LookPath env node of
        Some err \<Rightarrow> Returns (w, None, errors_Wrap (Some err) (node @ not_in_PATH))
      | None \<Rightarrow>
     (case LookPath env npm of
        Some err \<Rightarrow> Returns (w, None, errors_Wrap (Some err) (npm @ not_in_PATH))
      | None \<Rightarrow>
     let dir = filepath_Join [TempDir env, ''jitsu-nodejs-'' @ NewV4 env] in
     (case os_RemoveAll env (files w) dir of
        (fs, Some err) \<Rightarrow>
          Returns (w\<lparr>files := fs\<rparr>, None,
            errors_Wrap (Some err) (''purge temp dir '' @ quoted dir))
      | (fs, None) \<Rightarrow>
     (case os_MkdirAll env fs dir of
        (fs, Some err) \<Rightarrow>
          Returns (w\<lparr>files := fs\<rparr>, None,
            errors_Wrap (Some err) (''create temp dir '' @ quoted dir))
      | (fs, None) \<Rightarrow>
     (case createPackageJSON env fs dir of
        (fs, Some err) \<Rightarrow>
          Returns (w\<lparr>files := fs\<rparr>, None,
            errors_Wrap (Some err) (''create package.json in '' @ quoted dir))
      | (fs, None) \<Rightarrow>
     (case getDependencies executable of
        (dependencies, Some err) \<Rightarrow>
          Returns (w\<lparr>files := fs\<rparr>, None, errors_Wrap (Some err) ''get dependencies'')
      | (dependencies, None) \<Rightarrow>
     (case installNodeModules f env dir dependencies (w\<lparr>files := fs\<rparr>) of
        (w, Some err) \<Rightarrow>
          Returns (w, None, errors_Wrap (Some err) (''install node modules in '' @ quoted dir))
      | (w, None) \<Rightarrow>
     let scriptPath = filepath_Join [dir, executableScriptName] in
     (case os_Create env (files w) scriptPath of
        (fs, Some err) \<Rightarrow>
          Returns (w\<lparr>files := fs\<rparr>, None,
            errors_Wrap (Some err) (''create main script in '' @ quoted dir))
      | (fs, None) \<Rightarrow>
     (case getExpression f env fs dir executable of
        Panics msg \<Rightarrow> Panics msg
      | Returns (expression, Some err) \<Rightarrow>
          Returns (w\<lparr>files := fs\<rparr>, None, errors_Wrap (Some err) ''get executable expression'')
      | Returns (expression, None) \<Rightarrow>
     (case sanitizeVariables variables of
        Panics msg \<Rightarrow> Panics msg
      | Returns sanitized \<Rightarrow>
     let values = \<lparr>Executable = escapeJSON (Marshal_variables env) (Inl expression),
                    Variables = escapeJSON (Marshal_variables env) (Inr sanitized),
                    Includes = escapeJSON (Marshal_variables env)
                                 (Inl (strings_Join includes ''\<newline>\<newline>''))\<rparr>;
         (written, err) = Execute env values;
         w = w\<lparr>files := fs(scriptPath \<mapsto> RegularFile written)\<rparr>
     in
     (case err of
        Some err \<Rightarrow>
          Returns (w, None,
            errors_Wrap (Some err) (''execute script template to '' @ quoted scriptPath))
      | None \<Rightarrow>
     (case Govern env \<lparr>Dir = dir, Path = node,
                         Args = [''--max-old-space-size=100'', executableScriptName]\<rparr> of
        Inl err \<Rightarrow> Returns (w, None, errors_Wrap (Some err) ''govern process'')
      | Inr governor \<Rightarrow>
          Returns (w, Some \<lparr>script_governor = governor, script_dir = dir\<rparr>, None)))))))))))))"

section \<open>Example environments\<close>

text \<open>
  An environment in which every step succeeds (the package manager installs nothing,
  the template writes the user code, every manifest decodes as empty), and a disk that
  holds only the temporary directory.
\<close>

definition example_env :: "(unit, unit) env" where
  "example_env =
     \<lparr>LookPath = (\<lambda>file. None), TempDir = ''/tmp'', NewV4 = ''u'',
      RemoveAll_fails = (\<lambda>p. None), MkdirAll_fails = (\<lambda>p. None),
      Create_fails = (\<lambda>p. None), Write_fails = (\<lambda>p. None),
      Run = (\<lambda>cmd fs. (None, fs)),
      Decode = (\<lambda>text. Inr \<lparr>Main = [], Dependencies = []\<rparr>),
      Execute = (\<lambda>values. (Executable values, None)),
      Marshal_variables = (\<lambda>variables. Inr ''{}''),
      Govern = (\<lambda>process. Inr ())\<rparr>"

definition example_world :: world where
  "example_world = \<lparr>files = [''/tmp'' \<mapsto> Directory], execs = []\<rparr>"


text \<open>
  An installed tree for the examples: the runtime manifest with the given text, and the
  package \<^verbatim>\<open>left-pad\<close> with its manifest and entry point. \<open>example_Decode\<close> decodes the
  manifest texts of the examples.
\<close>

definition manifest_one :: string where
  \<open>manifest_one = ''{"dependencies":{"left-pad":"^1.3.0","node-fetch":"^2.7.0","vm2":"^3.9.19"}}''\<close>

definition manifest_two :: string where
  \<open>manifest_two = ''{"dependencies":{"left-pad":"^1.3.0","lodash":"^4.17.21","node-fetch":"^2.7.0","vm2":"^3.9.19"}}''\<close>

definition manifest_none :: string where
  \<open>manifest_none = ''{"dependencies":{"node-fetch":"^2.7.0","vm2":"^3.9.19"}}''\<close>

definition manifest_left_pad :: string where
  \<open>manifest_left_pad = ''{"name":"left-pad","main":"index.js"}''\<close>

definition manifest_no_main :: string where
  \<open>manifest_no_main = ''{"name":"left-pad"}''\<close>

definition example_Decode :: "string \<Rightarrow> error + packageJSON" where
  "example_Decode text =
     (if text = ''{}'' then Inr \<lparr>Main = [], Dependencies = []\<rparr>
      else if text = manifest_one then
        Inr \<lparr>Main = [], Dependencies =
          [(''left-pad'', ''^1.3.0''), (''node-fetch'', ''^2.7.0''), (''vm2'', ''^3.9.19'')]\<rparr>
      else if text = manifest_two then
        Inr \<lparr>Main = [], Dependencies =
          [(''left-pad'', ''^1.3.0''), (''lodash'', ''^4.17.21''), (''node-fetch'', ''^2.7.0''),
           (''vm2'', ''^3.9.19'')]\<rparr>
      else if text = manifest_none then
        Inr \<lparr>Main = [], Dependencies = [(''node-fetch'', ''^2.7.0''), (''vm2'', ''^3.9.19'')]\<rparr>
      else if text = manifest_left_pad then Inr \<lparr>Main = ''index.js'', Dependencies = []\<rparr>
      else if text = manifest_no_main then Inr \<lparr>Main = [], Dependencies = []\<rparr>
      else Inl (External ''invalid character''))"

definition installed :: "string \<Rightarrow> string \<Rightarrow> filesystem" where
  "installed runtime package =
     [''/d/package.json'' \<mapsto> RegularFile runtime,
      ''/d/node_modules/left-pad/package.json'' \<mapsto> RegularFile package,
      ''/d/node_modules/left-pad/index.js'' \<mapsto> RegularFile ''module.exports = (s) => s''] "


section \<open>Properties\<close>

text \<open>
  Claim C4: for an Expression executable getDependencies returns the empty package list
  and no error, for a Package executable the one-element list holding the package name
  and no error, and for any other executable variant an error (unrecognized executable)
  with no packages.
\<close>

theorem getDependencies_by_variant:
  "getDependencies (Expression s) = ([], None) \<and>
   getDependencies (Package p) = ([p], None) \<and>
   (\<exists>err. getDependencies (OtherExecutable t) = ([], Some err))"
  by simp

subsection \<open>Escaping and decoding\<close>

lemma hexval_hex: "k < 16 \<Longrightarrow> hexval (hex k) = Some k"
proof -
  assume k: "k < 16"
  have "list_all (\<lambda>k. hexval (hex k) = Some k) [0..<16]" by code_simp
  with k show ?thesis by (simp add: list_all_iff)
qed

lemma unescape_byte:
  assumes "(of_char b :: nat) < 0x80"
  shows "json_unescape ((if htmlSafeSet b then [b] else escape_byte b) @ r) =
         map_option ((#) b) (json_unescape r)"
proof (cases "htmlSafeSet b")
  case True
  then show ?thesis by (simp add: htmlSafeSet_def)
next
  case False
  have d: "of_char b div 16 < (16::nat)" "of_char b mod 16 < (16::nat)"
    using assms by simp_all
  have z: "hexval (CHR ''0'') = Some 0" by (simp add: hexval_def)
  have u: "utf8_encode (of_char b) = [b]"
    using assms by (simp add: utf8_encode_def)
  show ?thesis
  proof (cases "b = CHR 0x5C \<or> b = CHR 0x22 \<or> b = CHR ''\<newline>'' \<or> b = CHR 0x0D \<or> b = CHR 0x09")
    case True
    then show ?thesis using False
      by (auto simp: escape_byte_def unescape_char_def htmlSafeSet_def)
  next
    case F2: False
    then have "escape_byte b = CHR 0x5C # ''u00'' @ [hex (of_char b div 16), hex (of_char b mod 16)]"
      by (simp add: escape_byte_def)
    moreover have "(@) [b] = (#) b" by auto
    ultimately show ?thesis using False
      by (simp add: hexval_hex [OF d(1)] hexval_hex [OF d(2)] z u)
  qed
qed

lemma unescape_encode_ascii:
  "ascii s \<Longrightarrow> json_unescape (encode_string s @ t) = map_option ((@) s) (json_unescape t)"
proof (induction s)
  case Nil
  then show ?case by (simp add: option.map_ident)
next
  case (Cons b s)
  then have b: "(of_char b :: nat) < 0x80" and s: "ascii s" by (simp_all add: ascii_def)
  have "json_unescape (encode_string (b # s) @ t) =
        json_unescape ((if htmlSafeSet b then [b] else escape_byte b) @ (encode_string s @ t))"
    using b by simp
  also have "\<dots> = map_option ((#) b) (json_unescape (encode_string s @ t))"
    using b by (rule unescape_byte)
  also have "\<dots> = map_option ((@) (b # s)) (json_unescape t)"
  proof -
    have "(\<lambda>x. b # s @ x) = (@) (b # s)" by auto
    then show ?thesis by (simp add: Cons.IH [OF s] option.map_comp comp_def)
  qed
  finally show ?case .
qed

lemma encode_string_hd: "encode_string s = x # xs \<Longrightarrow> x \<noteq> CHR 0x22"
proof (cases s)
  case Nil
  assume "encode_string s = x # xs"
  with Nil show ?thesis by simp
next
  case (Cons b r)
  assume e: "encode_string s = x # xs"
  show ?thesis
  proof (cases "(of_char b :: nat) < 0x80")
    case True
    with e Cons show ?thesis
      by (auto simp: htmlSafeSet_def escape_byte_def split: if_splits)
  next
    case False
    then have nq: "b \<noteq> CHR 0x22" by auto
    obtain c sz where d: "utf8_DecodeRuneInString (b # r) = (c, sz)" by force
    have "1 \<le> sz" using DecodeRune_size [of "b # r"] d by simp
    then obtain k where k: "sz = Suc k" by (cases sz) auto
    with e Cons False d nq show ?thesis by (auto split: if_splits)
  qed
qed

lemma encode_string_ascii_append:
  "ascii a \<Longrightarrow> encode_string (a @ b) = encode_string a @ encode_string b"
  by (induction a) (simp_all add: ascii_def)

lemma hex_not_quote: "k < 16 \<Longrightarrow> hex k \<noteq> CHR 0x22"
proof -
  assume k: "k < 16"
  have "list_all (\<lambda>k. hex k \<noteq> CHR 0x22) [0..<16]" by code_simp
  with k show ?thesis by (simp add: list_all_iff)
qed

lemma dropWhile_quote_id:
  "(\<And>x xs. body = x # xs \<Longrightarrow> x \<noteq> CHR 0x22) \<Longrightarrow> dropWhile (\<lambda>c. c = CHR 0x22) body = body"
  by (cases body) auto

lemma encode_string_ascii_last:
  "ascii s \<Longrightarrow> s \<noteq> [] \<Longrightarrow> last s \<noteq> CHR 0x22 \<Longrightarrow>
     encode_string s \<noteq> [] \<and> last (encode_string s) \<noteq> CHR 0x22"
proof -
  assume a: "ascii s" and n: "s \<noteq> []" and l: "last s \<noteq> CHR 0x22"
  from n obtain q b where s: "s = q @ [b]" by (metis rev_exhaust)
  with a have q: "ascii q" and b: "(of_char b :: nat) < 0x80" by (simp_all add: ascii_def)
  from l s have nb: "b \<noteq> CHR 0x22" by simp
  have "encode_string s = encode_string q @ (if htmlSafeSet b then [b] else escape_byte b)"
    using s q b by (simp add: encode_string_ascii_append)
  moreover have "hex (of_char b mod 16) \<noteq> CHR 0x22" by (rule hex_not_quote) simp
  ultimately show ?thesis using nb by (simp add: escape_byte_def)
qed

lemma Trim_exact:
  assumes "\<And>x xs. body = x # xs \<Longrightarrow> x \<noteq> CHR 0x22"
    and "body \<noteq> [] \<Longrightarrow> last body \<noteq> CHR 0x22"
  shows "strings_Trim (CHR 0x22 # body @ [CHR 0x22]) [CHR 0x22] = body"
proof (cases body)
  case Nil
  then show ?thesis by (simp add: strings_Trim_def)
next
  case (Cons x xs)
  then have x: "x \<noteq> CHR 0x22" using assms(1) by simp
  have l: "last (x # xs) \<noteq> CHR 0x22" using assms(2) Cons by simp
  obtain ys y where r: "rev (x # xs) = y # ys" by (cases "rev (x # xs)") auto
  then have "y = last (x # xs)" by (metis last_rev list.sel(1) rev_rev_ident hd_rev)
  with l have y: "y \<noteq> CHR 0x22" by simp
  have "strings_Trim (CHR 0x22 # body @ [CHR 0x22]) [CHR 0x22] =
        rev (dropWhile (\<lambda>c. c = CHR 0x22) (CHR 0x22 # rev (x # xs)))"
    using Cons x by (simp add: strings_Trim_def)
  also have "\<dots> = rev (rev (x # xs))" using r y by simp
  finally show ?thesis using Cons by simp
qed

lemma roundtrip_ascii:
  assumes "ascii s" and "s = [] \<or> last s \<noteq> CHR 0x22"
  shows "json_decode_string (embedded_literal s) = Some s"
proof -
  have t: "strings_Trim (CHR 0x22 # encode_string s @ [CHR 0x22]) [CHR 0x22] = encode_string s"
  proof (rule Trim_exact)
    fix x xs assume "encode_string s = x # xs"
    then show "x \<noteq> CHR 0x22" by (rule encode_string_hd)
  next
    assume ne: "encode_string s \<noteq> []"
    then have "s \<noteq> []" by auto
    with assms show "last (encode_string s) \<noteq> CHR 0x22"
      using encode_string_ascii_last by blast
  qed
  have "json_unescape (encode_string s @ []) = Some s"
    using assms(1) by (simp only: unescape_encode_ascii) simp
  then show ?thesis
    by (simp add: embedded_literal_def escapeJSON_def json_Marshal_def json_Marshal_string_def t
        json_decode_string_def)
qed

lemma trailing_quote_breaks:
  assumes "ascii s" and "s \<noteq> []" and "last s = CHR 0x22"
  shows "escapeJSON (\<lambda>_::unit. Inr []) (Inl s) = encode_string (butlast s) @ [CHR 0x5C] \<and>
         json_decode_string (embedded_literal s) = None"
proof -
  from assms obtain q where s: "s = q @ [CHR 0x22]" by (metis append_butlast_last_id)
  with assms have q: "ascii q" by (simp add: ascii_def)
  have e: "encode_string s = encode_string q @ [CHR 0x5C, CHR 0x22]"
    using s q by (simp add: encode_string_ascii_append htmlSafeSet_def escape_byte_def)
  have "dropWhile (\<lambda>c. c = CHR 0x22) (encode_string q @ [CHR 0x5C, CHR 0x22, CHR 0x22])
          = encode_string q @ [CHR 0x5C, CHR 0x22, CHR 0x22]"
  proof (rule dropWhile_quote_id)
    fix x xs assume "encode_string q @ [CHR 0x5C, CHR 0x22, CHR 0x22] = x # xs"
    then show "x \<noteq> CHR 0x22"
      using encode_string_hd [of q] by (cases "encode_string q") auto
  qed
  then have t: "strings_Trim (CHR 0x22 # encode_string s @ [CHR 0x22]) [CHR 0x22]
      = encode_string q @ [CHR 0x5C]"
    by (simp add: e strings_Trim_def)
  have u: "json_unescape (encode_string q @ [CHR 0x5C]) = None"
    using q by (simp only: unescape_encode_ascii) simp
  have el: "escapeJSON (\<lambda>_::unit. Inr []) (Inl s) = encode_string q @ [CHR 0x5C]"
    using t by (simp add: escapeJSON_def json_Marshal_def json_Marshal_string_def)
  have bl: "butlast s = q" using s by simp
  have "json_decode_string (CHR 0x22 # (encode_string q @ [CHR 0x5C]) @ [CHR 0x22]) = None"
    using u by (simp add: json_decode_string_def butlast_append)
  then show ?thesis
    unfolding embedded_literal_def el bl by simp
qed

text \<open>
  Claim C2: for every user-code string the escaped text, put back between double quotes,
  decodes as a JSON string to the original code. The lemmas above give this for ASCII
  text that does not end in a double quote, and refute it for ASCII text that does:
  \<^verbatim>\<open>strings.Trim\<close> takes the quote of the final escaped quote together with the
  enclosing one. The theorem evaluates \<open>escapeJSON\<close> at the user code
  \<^verbatim>\<open>exports.x = "a"\<close>: the result ends in a lone backslash, and the literal around it
  does not decode.
\<close>

theorem escapeJSON_trailing_quote:
  "escapeJSON (\<lambda>_::unit. Inr []) (Inl (''exports.x = '' @ [CHR 0x22, CHR ''a'', CHR 0x22]))
     = ''exports.x = '' @ [CHR 0x5C, CHR 0x22, CHR ''a'', CHR 0x5C] \<and>
   json_decode_string (embedded_literal (''exports.x = '' @ [CHR 0x22, CHR ''a'', CHR 0x22])) = None"
proof -
  have a: "ascii (''exports.x = '' @ [CHR 0x22, CHR ''a'', CHR 0x22])"
    by (simp add: ascii_def)
  have e: "encode_string (''exports.x = '' @ [CHR 0x22, CHR ''a''])
             = ''exports.x = '' @ [CHR 0x5C, CHR 0x22, CHR ''a'']"
    by (simp add: htmlSafeSet_def escape_byte_def)
  show ?thesis
    using trailing_quote_breaks [OF a] e by simp
qed


subsection \<open>Sanitizing the variable bag\<close>

lemma sanitize_range_nil:
  "(key, NilValue) \<in> set vars \<Longrightarrow>
     sanitize_range vars acc = Panics ''invalid memory address or nil pointer dereference''"
proof (induction vars arbitrary: acc)
  case Nil
  then show ?case by simp
next
  case (Cons entry rest)
  obtain k v where entry: "entry = (k, v)" by (cases entry)
  show ?case
  proof (cases v)
    case NilValue
    with entry show ?thesis by simp
  next
    case (Dyn t x)
    with entry Cons.prems have "(key, NilValue) \<in> set rest" by auto
    then show ?thesis using entry Dyn by (simp add: Cons.IH)
  qed
qed

lemma sanitize_range_lookup:
  "NilValue \<notin> snd ` set vars \<Longrightarrow> distinct (map fst vars) \<Longrightarrow>
     \<exists>variables. sanitize_range vars acc = Returns variables \<and>
       (\<forall>key. variables key =
          (case map_of vars key of
             None \<Rightarrow> acc key
           | Some value \<Rightarrow> if is_func value then acc key else Some value))"
proof (induction vars arbitrary: acc)
  case Nil
  then show ?case by simp
next
  case (Cons entry rest)
  obtain k v where entry: "entry = (k, v)" by (cases entry)
  from Cons.prems have rest: "NilValue \<notin> snd ` set rest" "distinct (map fst rest)" by auto
  from Cons.prems entry have k: "map_of rest k = None"
    by (auto simp: map_of_eq_None_iff)
  from Cons.prems entry obtain t x where v: "v = Dyn t x" by (cases v) auto
  show ?case
  proof (cases "t = Kind_Func")
    case True
    from Cons.IH [OF rest, of acc] obtain m where
      m: "sanitize_range rest acc = Returns m"
         "\<And>key. m key = (case map_of rest key of None \<Rightarrow> acc key
              | Some value \<Rightarrow> if is_func value then acc key else Some value)"
      by blast
    have "sanitize_range (entry # rest) acc = Returns m"
      using True entry v m(1) by simp
    moreover have "m key = (case map_of (entry # rest) key of None \<Rightarrow> acc key
              | Some value \<Rightarrow> if is_func value then acc key else Some value)" for key
      using m(2) [of key] k True entry v by (simp add: is_func_def)
    ultimately show ?thesis by blast
  next
    case False
    from Cons.IH [OF rest, of "acc(k \<mapsto> v)"] obtain m where
      m: "sanitize_range rest (acc(k \<mapsto> v)) = Returns m"
         "\<And>key. m key = (case map_of rest key of None \<Rightarrow> (acc(k \<mapsto> v)) key
              | Some value \<Rightarrow> if is_func value then (acc(k \<mapsto> v)) key else Some value)"
      by blast
    have "sanitize_range (entry # rest) acc = Returns m"
      using False entry v m(1) by simp
    moreover have "m key = (case map_of (entry # rest) key of None \<Rightarrow> acc key
              | Some value \<Rightarrow> if is_func value then acc key else Some value)" for key
      using m(2) [of key] k False entry v
      by (cases "key = k") (simp_all add: is_func_def split: option.splits)
    ultimately show ?thesis by blast
  qed
qed

lemma sanitizeVariables_without_nil:
  assumes "NilValue \<notin> snd ` set vars" and "distinct (map fst vars)"
  shows "\<exists>variables. sanitizeVariables vars = Returns variables \<and>
           (\<forall>key. variables key =
              (case map_of vars key of
                 None \<Rightarrow> None
               | Some value \<Rightarrow> if is_func value then None else Some value))"
  using sanitize_range_lookup [OF assms, of Map.empty] by (simp add: sanitizeVariables_def)

subsection \<open>Evaluating the examples\<close>

lemma CreateScript_nil_bag:
  assumes "(key, NilValue) \<in> set variables"
  shows "case CreateScript f env w executable variables includes of
           Panics msg \<Rightarrow> True
         | Returns (w', script, err) \<Rightarrow> script = None \<and> err \<noteq> None"
proof -
  have "sanitizeVariables variables = Panics ''invalid memory address or nil pointer dereference''"
    using assms by (simp add: sanitizeVariables_def sanitize_range_nil)
  then show ?thesis
    by (auto simp: CreateScript_def Let_def split: option.splits prod.splits go.splits sum.splits)
qed

lemma example_dir: "filepath_Join [''/tmp'', ''jitsu-nodejs-u''] = ''/tmp/jitsu-nodejs-u''"
  by (simp add: filepath_Join_def filepath_Clean_def clean_element_def)

lemma example_manifest: "packageJSONPath ''/tmp/jitsu-nodejs-u'' = ''/tmp/jitsu-nodejs-u/package.json''"
  by (simp add: packageJSONPath_def filepath_Join_def filepath_Clean_def clean_element_def)

lemma example_script: "filepath_Join [''/tmp/jitsu-nodejs-u'', executableScriptName] = ''/tmp/jitsu-nodejs-u/main.cjs''"
  by (simp add: executableScriptName_def filepath_Join_def filepath_Clean_def clean_element_def)

lemma example_nil_bag_panics: "CreateScript Factory example_env example_world (Expression ''return $'')
          [(''k'', NilValue)] [] = Panics ''invalid memory address or nil pointer dereference''"
  by (simp add: CreateScript_def example_env_def example_world_def example_dir example_manifest example_script
      os_RemoveAll_def os_MkdirAll_def createPackageJSON_def os_Create_def file_Write_def
      installNodeModules_def getExpression_def sanitizeVariables_def under_def Let_def)

lemma example_paths:
  "packageJSONPath ''/d'' = ''/d/package.json''"
  "filepath_Join [''/d'', ''node_modules'', ''left-pad''] = ''/d/node_modules/left-pad''"
  "packageJSONPath ''/d/node_modules/left-pad'' = ''/d/node_modules/left-pad/package.json''"
  "filepath_Join [''/d/node_modules/left-pad'', ''index.js''] = ''/d/node_modules/left-pad/index.js''"
  by (simp_all add: packageJSONPath_def filepath_Join_def filepath_Clean_def clean_element_def)


lemmas example_defs =
  example_paths installed_def example_env_def example_Decode_def Factory_def
  manifest_one_def manifest_two_def manifest_none_def manifest_left_pad_def manifest_no_main_def

subsection \<open>The harness user code\<close>

text \<open>
  For a Package executable whose runtime manifest was read, \<open>getExpression\<close> with two
  or more dependencies outside the harness-support packages returns the empty user code
  and the nil error: the error it wraps, \<open>err\<close>, is nil after the successful read, and
  \<^verbatim>\<open>errors.Wrapf\<close> of nil is nil. With no such dependency it indexes an empty slice.
\<close>

lemma getExpression_several_dependencies:
  assumes "readPackageJSON env fs dir = (Some runtime, None)"
    and "length (filter (\<lambda>d. map_of (packages f) d = None) (map fst (Dependencies runtime))) > 1"
  shows "getExpression f env fs dir (Package e) = Returns ([], None)"
  using assms by (simp add: getExpression_def)

lemma getExpression_no_dependency:
  assumes "readPackageJSON env fs dir = (Some runtime, None)"
    and "filter (\<lambda>d. map_of (packages f) d = None) (map fst (Dependencies runtime)) = []"
  shows "getExpression f env fs dir (Package e) = Panics ''index out of range [0] with length 0''"
  using assms by (simp add: getExpression_def)

text \<open>
  Claim C1: for a Package executable whose installed manifest has zero, or two or more,
  dependencies outside the harness-support packages, getExpression returns an error.
  The theorem evaluates \<open>getExpression\<close> for the factory's packages at a manifest with
  the two external dependencies \<^verbatim>\<open>left-pad\<close> and \<^verbatim>\<open>lodash\<close>, where it returns the empty
  code without an error, and at a manifest with none, where it panics.
\<close>

theorem getExpression_ambiguous_dependency:
  "getExpression Factory (example_env\<lparr>Decode := example_Decode\<rparr>)
     (installed manifest_two manifest_left_pad) ''/d'' (Package ''left-pad'') = Returns ([], None) \<and>
   getExpression Factory (example_env\<lparr>Decode := example_Decode\<rparr>)
     (installed manifest_none manifest_left_pad) ''/d'' (Package ''left-pad'')
     = Panics ''index out of range [0] with length 0''"
  by (simp add: getExpression_def readPackageJSON_def os_Open_def ioutil_ReadAll_def example_defs)

text \<open>
  Claim C7: for a Package executable with exactly one dependency outside the
  harness-support packages, whose own manifest was read: if that manifest's \<^verbatim>\<open>main\<close>
  field is empty, getExpression returns the error that the main field is empty;
  otherwise it returns the text of the entry-point file unchanged with no error (and an
  error if that file cannot be opened or read).
\<close>

theorem getExpression_entry_point:
  assumes "readPackageJSON env fs dir = (Some runtime, None)"
    and "filter (\<lambda>d. map_of (packages f) d = None) (map fst (Dependencies runtime)) = [packageName]"
    and "readPackageJSON env fs (filepath_Join [dir, ''node_modules'', packageName])
           = (Some manifest, None)"
  shows "getExpression f env fs dir (Package e) =
           (if Main manifest = [] then
              Returns ([], Some (Errorf (''package.json main for '' @ packageName @ '' is empty'')))
            else
              (case fs (filepath_Join [filepath_Join [dir, ''node_modules'', packageName],
                                       Main manifest]) of
                 Some (RegularFile data) \<Rightarrow> Returns (data, None)
               | Some Directory \<Rightarrow>
                   Returns ([], Some (Wrapped ''read main file'' (External ''read: is a directory'')))
               | None \<Rightarrow>
                   Returns ([], Some (Wrapped ''open main file''
                                  (External ''open: no such file or directory'')))))"
  using assms
  by (simp add: getExpression_def os_Open_def ioutil_ReadAll_def split: option.splits entry.splits)

theorem getExpression_entry_point_witness:
  "getExpression Factory (example_env\<lparr>Decode := example_Decode\<rparr>)
     (installed manifest_one manifest_left_pad) ''/d'' (Package ''left-pad'')
     = Returns (''module.exports = (s) => s'', None) \<and>
   getExpression Factory (example_env\<lparr>Decode := example_Decode\<rparr>)
     (installed manifest_one manifest_no_main) ''/d'' (Package ''left-pad'')
     = Returns ([], Some (Errorf ''package.json main for left-pad is empty''))"
proof -
  let ?env = "example_env\<lparr>Decode := example_Decode\<rparr>"
  let ?runtime = "\<lparr>Main = [], Dependencies =
          [(''left-pad'', ''^1.3.0''), (''node-fetch'', ''^2.7.0''), (''vm2'', ''^3.9.19'')]\<rparr>"
  have r: "readPackageJSON ?env (installed manifest_one p) ''/d'' = (Some ?runtime, None)" for p
    by (simp add: readPackageJSON_def os_Open_def ioutil_ReadAll_def example_defs)
  have d: "filter (\<lambda>d. map_of (packages Factory) d = None) (map fst (Dependencies ?runtime))
             = [''left-pad'']"
    by (simp add: Factory_def)
  have m1: "readPackageJSON ?env (installed manifest_one manifest_left_pad)
              (filepath_Join [''/d'', ''node_modules'', ''left-pad''])
              = (Some \<lparr>Main = ''index.js'', Dependencies = []\<rparr>, None)"
    by (simp add: readPackageJSON_def os_Open_def ioutil_ReadAll_def example_defs)
  have m2: "readPackageJSON ?env (installed manifest_one manifest_no_main)
              (filepath_Join [''/d'', ''node_modules'', ''left-pad''])
              = (Some \<lparr>Main = [], Dependencies = []\<rparr>, None)"
    by (simp add: readPackageJSON_def os_Open_def ioutil_ReadAll_def example_defs)
  show ?thesis
    using getExpression_entry_point [OF r d m1, of "''left-pad''"]
      getExpression_entry_point [OF r d m2, of "''left-pad''"]
    by (simp add: example_paths installed_def)
qed

text \<open>
  Claim C8: for an Expression executable, the harness user code is the expression source
  inside a function of the single argument \<^verbatim>\<open>event\<close> whose body first binds \<^verbatim>\<open>$\<close> and
  \<^verbatim>\<open>_\<close> to the event; no error is returned, whatever the directory and the files.
\<close>

theorem getExpression_wraps_expression:
  "getExpression f env fs dir (Expression e) =
     Returns (''\<newline>module.exports = async (event) => {\<newline>  let $ = event\<newline>  let _ = event\<newline>// expression start //\<newline>''
                @ e @ ''\<newline>// expression end //\<newline>}'', None)"
  by (simp add: getExpression_def expression_prefix_def expression_suffix_def)

end
